theory Spec2Isabelle
  imports Complex_Main
begin

section \<open>Mars-Troughs: the trough model and the parameter estimator\<close>

text \<open>
  A shallow embedding of \<^verbatim>\<open>mars_troughs/trough.py\<close> (class \<^verbatim>\<open>Trough\<close>) and
  \<^verbatim>\<open>mars_troughs/mcmc.py\<close> (class \<^verbatim>\<open>MCMC\<close>).

  Conventions of the embedding:
  \<^item> numpy floats are idealised as \<^typ>\<open>real\<close> and numpy integers as \<^typ>\<open>int\<close>
    (arithmetic that stays inside the machine range); numpy arrays are lists, a data
    array carries its dtype;
  \<^item> a scipy spline object is represented by the data it was built from (its
    constructor arguments), so that two spline objects are equal exactly when they
    were built from the same arrays; evaluating a spline is left to the collaborators;
  \<^item> exceptions are values of type \<open>error\<close>, results are \<open>error + 'a\<close>;
  \<^item> attribute mutation is explicit state passing on the records \<open>trough\<close> and \<open>mcmc\<close>.
\<close>

subsection \<open>Data\<close>

datatype error = ValueError | IndexError | ZeroDivisionError | TypeError | KeyError | AttributeError

text \<open>\<^verbatim>\<open>InterpolatedUnivariateSpline(x, y)\<close> and its \<^verbatim>\<open>antiderivative()\<close>.\<close>

datatype spline1 = IUS "real list" "real list" | Antiderivative spline1

text \<open>\<^verbatim>\<open>RectBivariateSpline(x, y, z)\<close>.\<close>

datatype spline2 = RBS "real list" "real list" "real list list"

fun rbs_x :: "spline2 \<Rightarrow> real list" where
  "rbs_x (RBS x y z) = x"

text \<open>The accumulation submodel object: constructed from the insolation times, the
  insolation and the accumulation parameters; the lag submodel object holds its
  parameters only.\<close>

record accu_model =
  acc_times :: "real list"
  acc_insolation :: "real list"
  acc_parameters :: "real list"

record lag_model =
  lag_parameters :: "real list"

text \<open>
  Modelled from the spec: the submodel classes behind \<^verbatim>\<open>ACCUMULATION_MODEL_MAP\<close> and
  \<^verbatim>\<open>LAG_MODEL_MAP\<close> and the evaluation of scipy's bivariate spline are not part of the
  sources. Following the submodel interface (every evaluation is vectorised over an
  arbitrary sequence of times, deterministic and free of side effects given the current
  parameter vector) they are taken as pointwise functions of the time:
  \<open>lag_at\<close> is \<^verbatim>\<open>lagModel.get_lag_at_t\<close>, \<open>yt_at\<close> is \<^verbatim>\<open>accuModel.get_yt\<close>,
  \<open>xt_at\<close> is \<^verbatim>\<open>accuModel.get_xt\<close> (given the spline, the cotangent and the cosecant),
  \<open>rbs_ev\<close> is \<^verbatim>\<open>RectBivariateSpline.ev\<close>.
\<close>

record collaborators =
  lag_at :: "lag_model \<Rightarrow> real \<Rightarrow> real"
  yt_at :: "accu_model \<Rightarrow> real \<Rightarrow> real"
  xt_at :: "accu_model \<Rightarrow> spline1 \<Rightarrow> real \<Rightarrow> real \<Rightarrow> real \<Rightarrow> real"
  rbs_ev :: "spline2 \<Rightarrow> real \<Rightarrow> real \<Rightarrow> real"

record trough =
  angle_rad :: real
  csc_angle :: real
  cot_angle :: real
  acc_model_name :: string
  lag_model_name :: string
  errorbar :: real
  meters_per_pixel :: "real \<times> real"
  insolation :: "real list"
  ins_times :: "real list"
  retreats :: "real list list"
  lags :: "int list"
  ret_data_spline :: spline2
  re2_data_spline :: spline2
  accuModel :: accu_model
  lagModel :: lag_model
  lag_model_t :: "real list"
  retreat_model_t :: "real list"
  lag_model_t_spline :: spline1
  retreat_model_t_spline :: spline1
  int_retreat_model_t_spline :: spline1

subsection \<open>The trough model\<close>

text \<open>\<^verbatim>\<open>self.lags = np.arange(16) + 1; self.lags[0] -= 1; self.lags[-1] = 20\<close>\<close>

definition Trough_lags :: "int list" where
  "Trough_lags =
     (let l0 = map (\<lambda>i. int i + 1) [0..<16];
          l1 = l0[0 := l0 ! 0 - 1];
          l2 = l1[length l1 - 1 := 20]
      in l2)"

text \<open>\<^verbatim>\<open>get_lag_at_t(times)\<close>, vectorised.\<close>

definition get_lag_at_t :: "collaborators \<Rightarrow> lag_model \<Rightarrow> real list \<Rightarrow> real list" where
  "get_lag_at_t E lm ts = map (lag_at E lm) ts"

text \<open>\<^verbatim>\<open>get_retreat_model_t\<close>: \<^verbatim>\<open>self.ret_data_spline.ev(lag_t, time)\<close>, pointwise on
  the paired arrays.\<close>

definition get_retreat_model_t :: "collaborators \<Rightarrow> trough \<Rightarrow> real list \<Rightarrow> real list \<Rightarrow> real list" where
  "get_retreat_model_t E st lag_t time =
     map (\<lambda>(l, t). rbs_ev E (ret_data_spline st) l t) (zip lag_t time)"

definition compute_model_splines :: "trough \<Rightarrow> trough" where
  "compute_model_splines st =
     (let st1 = st\<lparr>lag_model_t_spline := IUS (ins_times st) (lag_model_t st)\<rparr>;
          st2 = st1\<lparr>retreat_model_t_spline := IUS (ins_times st1) (retreat_model_t st1)\<rparr>
      in st2\<lparr>int_retreat_model_t_spline := Antiderivative (retreat_model_t_spline st2)\<rparr>)"

text \<open>The \<^verbatim>\<open>angle\<close> setter.\<close>

definition set_angle :: "trough \<Rightarrow> real \<Rightarrow> trough" where
  "set_angle st v =
     (let a = v * pi / 180;
          c = 1 / sin a
      in st\<lparr>angle_rad := a, csc_angle := c, cot_angle := cos a * c\<rparr>)"

text \<open>
  \<^verbatim>\<open>Trough.__init__\<close>. The two files are passed as already parsed tables: the insolation
  file as its rows (insolation, time) after the skipped header, the retreat file as its
  rows; \<^verbatim>\<open>.T\<close> is the transposition. The resolution of the two model names in the
  registries is outside the sources; \<open>E\<close> stands for the resolved submodels.
\<close>

definition Trough_init ::
  "collaborators \<Rightarrow> real list \<Rightarrow> real list \<Rightarrow> string \<Rightarrow> string \<Rightarrow> real \<Rightarrow> real \<Rightarrow>
   (real \<times> real) list \<Rightarrow> real list list \<Rightarrow> trough" where
  "Trough_init E acc_params lag_params acc_name lag_name err ang ins_file retreat_file =
     (let insol = map fst ins_file;
          itimes = map (\<lambda>t. - t) (map snd ins_file);
          rets = transpose retreat_file;
          lgs = Trough_lags;
          st0 = \<lparr>angle_rad = 0, csc_angle = 0, cot_angle = 0,
                 acc_model_name = acc_name, lag_model_name = lag_name,
                 errorbar = err, meters_per_pixel = (500, 20),
                 insolation = insol, ins_times = itimes, retreats = rets,
                 lags = lgs,
                 ret_data_spline = RBS (map real_of_int lgs) itimes rets,
                 re2_data_spline = RBS (map real_of_int lgs) itimes (map (map (\<lambda>r. r ^ 2)) rets),
                 accuModel = \<lparr>acc_times = itimes, acc_insolation = insol,
                              acc_parameters = acc_params\<rparr>,
                 lagModel = \<lparr>lag_parameters = lag_params\<rparr>,
                 lag_model_t = [], retreat_model_t = [],
                 lag_model_t_spline = IUS [] [], retreat_model_t_spline = IUS [] [],
                 int_retreat_model_t_spline = IUS [] []\<rparr>;
          st1 = set_angle st0 ang;
          st2 = st1\<lparr>lag_model_t := get_lag_at_t E (lagModel st1) (ins_times st1)\<rparr>;
          st3 = st2\<lparr>retreat_model_t := get_retreat_model_t E st2 (lag_model_t st2) (ins_times st2)\<rparr>
      in compute_model_splines st3)"


text \<open>\<^verbatim>\<open>get_trajectory(times=None)\<close>: \<^verbatim>\<open>None\<close> selects the stored insolation times.\<close>

definition get_trajectory :: "collaborators \<Rightarrow> trough \<Rightarrow> real list option \<Rightarrow> real list \<times> real list" where
  "get_trajectory E st tms =
     (let ts = (case tms of None \<Rightarrow> ins_times st | Some t \<Rightarrow> t);
          spl = int_retreat_model_t_spline st;
          cot = cot_angle st;
          csc = csc_angle st;
          y = map (yt_at E (accuModel st)) ts;
          x = map (xt_at E (accuModel st) spl cot csc) ts
      in (x, y))"

text \<open>\<^verbatim>\<open>_L2_distance(x1, x2, y1, y2)\<close> with arrays \<open>x1\<close>, \<open>y1\<close> and scalars \<open>x2\<close>, \<open>y2\<close>.\<close>

definition L2_distance :: "real list \<Rightarrow> real \<Rightarrow> real list \<Rightarrow> real \<Rightarrow> real list" where
  "L2_distance x1 x2 y1 y2 = map (\<lambda>(a, b). (a - x2) ^ 2 + (b - y2) ^ 2) (zip x1 y1)"

text \<open>\<^verbatim>\<open>np.argmin\<close>: the index of the first occurrence of the minimum; an empty array
  raises \<^verbatim>\<open>ValueError\<close>.\<close>

fun argmin_from :: "real list \<Rightarrow> nat \<Rightarrow> nat \<Rightarrow> real \<Rightarrow> nat" where
  "argmin_from [] i best v = best"
| "argmin_from (x # xs) i best v =
     (if x < v then argmin_from xs (Suc i) i x else argmin_from xs (Suc i) best v)"

fun argmin :: "real list \<Rightarrow> error + nat" where
  "argmin [] = Inl ValueError"
| "argmin (x # xs) = Inr (argmin_from xs 1 0 x)"

text \<open>
  A one-dimensional data array with its dtype. \<^verbatim>\<open>np.zeros_like\<close> keeps the dtype, and
  the assignment of a float into an integer array casts as C does, dropping the fraction.
\<close>

datatype ndarray = FloatArr "real list" | IntArr "int list"

fun arr_len :: "ndarray \<Rightarrow> nat" where
  "arr_len (FloatArr xs) = length xs"
| "arr_len (IntArr xs) = length xs"

fun to_reals :: "ndarray \<Rightarrow> real list" where
  "to_reals (FloatArr xs) = xs"
| "to_reals (IntArr xs) = map real_of_int xs"

fun zeros_like :: "ndarray \<Rightarrow> ndarray" where
  "zeros_like (FloatArr xs) = FloatArr (replicate (length xs) 0)"
| "zeros_like (IntArr xs) = IntArr (replicate (length xs) 0)"

definition float_to_int :: "real \<Rightarrow> int" where
  "float_to_int r = (if 0 \<le> r then \<lfloor>r\<rfloor> else \<lceil>r\<rceil>)"

fun arr_set :: "ndarray \<Rightarrow> nat \<Rightarrow> real \<Rightarrow> ndarray" where
  "arr_set (FloatArr xs) i v = FloatArr (xs[i := v])"
| "arr_set (IntArr xs) i v = IntArr (xs[i := float_to_int v])"

text \<open>
  The loop of \<^verbatim>\<open>get_nearest_points\<close> over \<^verbatim>\<open>enumerate(zip(x_data, y_data))\<close>; the
  distances are computed in floats whatever the dtype of the data, the chosen point is
  stored into \<^verbatim>\<open>x_out\<close>, \<^verbatim>\<open>y_out\<close>, which have the dtype of the data.
\<close>

fun nearest_loop ::
  "(real list \<Rightarrow> real \<Rightarrow> real list \<Rightarrow> real \<Rightarrow> real list) \<Rightarrow> real list \<Rightarrow> real list \<Rightarrow>
   (nat \<times> real \<times> real) list \<Rightarrow> ndarray \<times> ndarray \<Rightarrow> error + (ndarray \<times> ndarray)" where
  "nearest_loop df x_model y_model [] out = Inr out"
| "nearest_loop df x_model y_model ((i, xdi, ydi) # rest) (x_out, y_out) =
     (case argmin (df x_model xdi y_model ydi) of
        Inl e \<Rightarrow> Inl e
      | Inr ind \<Rightarrow>
          if ind < length x_model \<and> ind < length y_model
          then nearest_loop df x_model y_model rest
                 (arr_set x_out i (x_model ! ind), arr_set y_out i (y_model ! ind))
          else Inl IndexError)"

definition get_nearest_points ::
  "collaborators \<Rightarrow> trough \<Rightarrow> ndarray \<Rightarrow> ndarray \<Rightarrow>
   (real list \<Rightarrow> real \<Rightarrow> real list \<Rightarrow> real \<Rightarrow> real list) option \<Rightarrow>
   error + (ndarray \<times> ndarray)" where
  "get_nearest_points E st x_data y_data dist_func =
     (let df = (case dist_func of None \<Rightarrow> L2_distance | Some f \<Rightarrow> f);
          (x_model, y_model) = get_trajectory E st None;
          x_out = zeros_like x_data;
          y_out = zeros_like y_data
      in nearest_loop df x_model y_model
           (enumerate 0 (zip (to_reals x_data) (to_reals y_data))) (x_out, y_out))"

text \<open>numpy's addition of two one-dimensional arrays: equal lengths add elementwise, a
  length-one array is broadcast, anything else raises \<^verbatim>\<open>ValueError\<close>.\<close>

definition np_add :: "real list \<Rightarrow> real list \<Rightarrow> error + real list" where
  "np_add xs ys =
     (if length xs = length ys then Inr (map (\<lambda>(a, b). a + b) (zip xs ys))
      else if length xs = 1 then Inr (map (\<lambda>b. hd xs + b) ys)
      else if length ys = 1 then Inr (map (\<lambda>a. a + hd ys) xs)
      else Inl ValueError)"

text \<open>
  \<^verbatim>\<open>(data - model) ** 2\<close> on a data array and the array of its nearest points, which
  \<^verbatim>\<open>get_nearest_points\<close> returns with the same length: integer arrays subtract and
  square as integers, a float operand makes the result float.
\<close>

fun sq_residuals :: "ndarray \<Rightarrow> ndarray \<Rightarrow> real list" where
  "sq_residuals (FloatArr d) (FloatArr m) = map (\<lambda>(a, b). (a - b) ^ 2) (zip d m)"
| "sq_residuals (IntArr d) (IntArr m) = map (\<lambda>(a, b). real_of_int ((a - b) ^ 2)) (zip d m)"
| "sq_residuals (FloatArr d) (IntArr m) = map (\<lambda>(a, b). (a - real_of_int b) ^ 2) (zip d m)"
| "sq_residuals (IntArr d) (FloatArr m) = map (\<lambda>(a, b). (real_of_int a - b) ^ 2) (zip d m)"

definition lnlikelihood :: "collaborators \<Rightarrow> trough \<Rightarrow> ndarray \<Rightarrow> ndarray \<Rightarrow> error + real" where
  "lnlikelihood E st x_data y_data =
     (case get_nearest_points E st x_data y_data None of
        Inl e \<Rightarrow> Inl e
      | Inr (x_model, y_model) \<Rightarrow>
          let xvar = (errorbar st * fst (meters_per_pixel st)) ^ 2;
              yvar = (errorbar st * snd (meters_per_pixel st)) ^ 2
          in (case np_add (map (\<lambda>r. r / xvar) (sq_residuals x_data x_model))
                          (map (\<lambda>r. r / yvar) (sq_residuals y_data y_model)) of
                Inl e \<Rightarrow> Inl e
              | Inr chi2 \<Rightarrow>
                  Inr ((- (1 / 2)) * sum_list chi2
                       - (1 / 2) * real (arr_len x_data) * ln (xvar * yvar))))"

subsection \<open>The parameter estimator\<close>

text \<open>
  The named parameter vector handed to \<^verbatim>\<open>ln_likelihood\<close>: the global noise scale under
  the key \<^verbatim>\<open>errorbar\<close> and the parameters of the two submodels, kept apart by their
  submodel prefix.
\<close>

record params =
  p_errorbar :: real
  p_acc :: "real list"
  p_lag :: "real list"

text \<open>The attributes that \<^verbatim>\<open>MCMC.__init__\<close> assigns before it constructs the trough
  object, and the estimator with its trough object \<^verbatim>\<open>self.tr\<close>.\<close>

record mcmc_data =
  maxSteps :: nat
  subIter :: nat
  mcmc_acc_model_name :: string
  mcmc_lag_model_name :: string
  xdata :: "real list"
  ydata :: "real list"
  mcmc_times :: "real list"

record mcmc = mcmc_data +
  tr :: trough

text \<open>
  The data load of \<^verbatim>\<open>MCMC.__init__\<close>:
  \<^verbatim>\<open>self.xdata,self.ydata=np.loadtxt(DATAPATHS.TMP, unpack=True)\<close> followed by
  \<^verbatim>\<open>self.xdata=self.xdata*1000 #km to m\<close>. The file is passed as its rows.
\<close>

definition load_TMP :: "(real \<times> real) list \<Rightarrow> real list \<times> real list" where
  "load_TMP rows =
     (let xd = map fst rows;
          yd = map snd rows;
          xd1 = map (\<lambda>x. x * 1000) xd
      in (xd1, yd))"

text \<open>
  Lines 36 to 46 of \<^verbatim>\<open>MCMC.__init__\<close>: the attributes assigned up to the negated
  insolation times. \<open>ins_data\<close> is the pair returned by \<^verbatim>\<open>load_insolation_data()\<close>.
\<close>

definition MCMC_load ::
  "nat \<Rightarrow> nat \<Rightarrow> string \<Rightarrow> string \<Rightarrow> (real \<times> real) list \<Rightarrow> real list \<times> real list \<Rightarrow> mcmc_data" where
  "MCMC_load maxS subI acc_name lag_name tmp_file ins_data =
     (let (xd, yd) = load_TMP tmp_file;
          tms = map (\<lambda>t. - t) (snd ins_data)
      in \<lparr>maxSteps = maxS, subIter = subI,
          mcmc_acc_model_name = acc_name, mcmc_lag_model_name = lag_name,
          xdata = xd, ydata = yd, mcmc_times = tms\<rparr>)"

text \<open>
  The call \<^verbatim>\<open>mt.Trough(self.acc_model_name,self.lag_model_name,acc_params,lag_params,
  errorbar,angle)\<close> of \<^verbatim>\<open>mcmc.py\<close>. The constructor of \<^verbatim>\<open>trough.py\<close> takes
  \<^verbatim>\<open>(acc_params, lag_params, acc_model_name, lag_model_name, errorbar, angle)\<close>, so the
  two names are bound to the parameter lists and the two optional parameter lists to the
  names. The constructor then evaluates
  \<^verbatim>\<open>ACCUMULATION_MODEL_MAP[self.acc_model_name]\<close> with the third argument as the key.
  Modelled from the spec: the registry is not part of the sources; it resolves a
  submodel by its name, so a list is no key of it (unhashable, \<^verbatim>\<open>TypeError\<close>) and
  \<^verbatim>\<open>None\<close>, the default of \<^verbatim>\<open>acc_params\<close>, is no registered name
  (\<^verbatim>\<open>KeyError\<close>).
\<close>

definition Trough_names_first ::
  "string \<Rightarrow> string \<Rightarrow> real list option \<Rightarrow> real list option \<Rightarrow> real \<Rightarrow> real \<Rightarrow>
   (real \<times> real) list \<Rightarrow> real list list \<Rightarrow> error + trough" where
  "Trough_names_first arg1 arg2 arg3 arg4 err ang ins_file retreat_file =
     (case arg3 of
        Some key \<Rightarrow> Inl TypeError
      | None \<Rightarrow> Inl KeyError)"

text \<open>
  \<^verbatim>\<open>MCMC.__init__\<close> up to the construction of the trough object and the read of
  \<^verbatim>\<open>self.tr.all_parameters\<close>, an attribute that \<^verbatim>\<open>trough.py\<close> does not define. The
  construction raises, so nothing after it runs.
\<close>

definition MCMC_init ::
  "nat \<Rightarrow> nat \<Rightarrow> string \<Rightarrow> string \<Rightarrow> real list option \<Rightarrow> real list option \<Rightarrow> real \<Rightarrow> real \<Rightarrow>
   (real \<times> real) list \<Rightarrow> real list \<times> real list \<Rightarrow> (real \<times> real) list \<Rightarrow> real list list \<Rightarrow>
   error + mcmc" where
  "MCMC_init maxS subI acc_name lag_name acc_params lag_params err ang
       tmp_file ins_data ins_file retreat_file =
     (let d = MCMC_load maxS subI acc_name lag_name tmp_file ins_data
      in case Trough_names_first (mcmc_acc_model_name d) (mcmc_lag_model_name d)
                acc_params lag_params err ang ins_file retreat_file of
           Inl e \<Rightarrow> Inl e
         | Inr t \<Rightarrow> Inl AttributeError)"

definition sentinel :: real where
  "sentinel = - (10 ^ 99)"

text \<open>
  The call \<^verbatim>\<open>self.tr.set_model(params)\<close> of \<^verbatim>\<open>ln_likelihood\<close>: one positional
  argument, the dict, where \<^verbatim>\<open>Trough.set_model(self, acc_params, lag_params, errorbar)\<close>
  requires three. Python raises \<^verbatim>\<open>TypeError\<close> when it binds the arguments, before the
  body of \<^verbatim>\<open>set_model\<close> runs.
\<close>

definition set_model_one_argument :: "collaborators \<Rightarrow> trough \<Rightarrow> params \<Rightarrow> error + trough" where
  "set_model_one_argument E st p = Inl TypeError"

text \<open>
  \<^verbatim>\<open>MCMC.ln_likelihood\<close>, returning the value or the exception together with the
  estimator after the call. No call of \<^verbatim>\<open>compute_model_splines\<close> occurs in it.
\<close>

definition ln_likelihood :: "collaborators \<Rightarrow> mcmc \<Rightarrow> params \<Rightarrow> (error + real) \<times> mcmc" where
  "ln_likelihood E m p =
     (if p_errorbar p < 0 then (Inr sentinel, m)
      else
        case set_model_one_argument E (tr m) p of
          Inl e \<Rightarrow> (Inl e, m)
        | Inr t1 \<Rightarrow>
            let m1 = m\<lparr>tr := t1\<rparr>;
                lag_t = get_lag_at_t E (lagModel (tr m1)) (mcmc_times m1)
            in if list_ex (\<lambda>l. l < 0) lag_t \<or> list_ex (\<lambda>l. l > 20) lag_t
               then (Inr sentinel, m1)
               else (lnlikelihood E (tr m1) (FloatArr (xdata m1)) (FloatArr (ydata m1)), m1))"

definition neg_ln_likelihood :: "collaborators \<Rightarrow> mcmc \<Rightarrow> params \<Rightarrow> (error + real) \<times> mcmc" where
  "neg_ln_likelihood E m p =
     (case ln_likelihood E m p of
        (Inl e, m1) \<Rightarrow> (Inl e, m1)
      | (Inr v, m1) \<Rightarrow> (Inr (- v), m1))"

subsection \<open>The sampling loop\<close>

text \<open>
  \<^verbatim>\<open>old_tau\<close> starts as the scalar \<^verbatim>\<open>np.inf\<close> and is an array of estimates afterwards.
\<close>

datatype old_tau = Inf | Tau "real list"

text \<open>
  \<^verbatim>\<open>np.all(np.abs(old_tau-tau)/tau<0.01)\<close>. numpy's division by zero gives an infinity
  or a nan, neither of which is below 0.01. With \<^verbatim>\<open>old_tau = inf\<close> the quotient is
  \<open>-inf\<close> for a negative estimate and \<open>+inf\<close> otherwise.
\<close>

fun tau_stable :: "old_tau \<Rightarrow> real list \<Rightarrow> bool" where
  "tau_stable Inf tau = list_all (\<lambda>t. t < 0) tau"
| "tau_stable (Tau old) tau =
     list_all (\<lambda>(o1, t). t \<noteq> 0 \<and> \<bar>o1 - t\<bar> / t < 1 / 100) (zip old tau)"

text \<open>\<^verbatim>\<open>np.mean\<close>.\<close>

definition mean :: "real list \<Rightarrow> real" where
  "mean xs = sum_list xs / real (length xs)"

record chain =
  iteration :: nat
  index :: nat
  autocorr :: "real list"
  old :: old_tau

text \<open>
  The loop \<^verbatim>\<open>for sample in self.sampler.sample(..., iterations=self.maxSteps)\<close>. The
  sampler is external: \<open>tau_at k\<close> is what \<^verbatim>\<open>get_autocorr_time(tol=0)\<close> returns when
  \<^verbatim>\<open>sampler.iteration\<close> is \<open>k\<close>. The result tells whether the loop was left by
  \<^verbatim>\<open>break\<close>, with the loop variables at that moment.
\<close>

function sampling_loop :: "(nat \<Rightarrow> real list) \<Rightarrow> nat \<Rightarrow> nat \<Rightarrow> chain \<Rightarrow> error + (bool \<times> chain)" where
  "sampling_loop tau_at maxS subI s =
     (if maxS \<le> iteration s then Inr (False, s)
      else
        let s1 = s\<lparr>iteration := iteration s + 1\<rparr>
        in if iteration s1 mod subI \<noteq> 0 then sampling_loop tau_at maxS subI s1
           else
             let tau = tau_at (iteration s1)
             in if length (autocorr s1) \<le> index s1 then Inl IndexError
                else
                  let s2 = s1\<lparr>autocorr := (autocorr s1)[index s1 := mean tau],
                              index := index s1 + 1\<rparr>;
                      converged = (list_all (\<lambda>t. t * 50 < real (iteration s2)) tau
                                   \<and> tau_stable (old s2) tau)
                  in if converged then Inr (True, s2)
                     else sampling_loop tau_at maxS subI (s2\<lparr>old := Tau tau\<rparr>))"
  by pat_completeness auto
termination
  by (relation "measure (\<lambda>(tau_at, maxS, subI, s). maxS - iteration s)") auto

declare sampling_loop.simps [simp del]

text \<open>The loop with its initialisation; \<^verbatim>\<open>int(maxSteps/subIter)\<close> raises for
  \<^verbatim>\<open>subIter = 0\<close>.\<close>

definition run_sampling :: "(nat \<Rightarrow> real list) \<Rightarrow> nat \<Rightarrow> nat \<Rightarrow> error + (bool \<times> chain)" where
  "run_sampling tau_at maxS subI =
     (if subI = 0 then Inl ZeroDivisionError
      else sampling_loop tau_at maxS subI
             \<lparr>iteration = 0, index = 0, autocorr = replicate (maxS div subI) 0, old = Inf\<rparr>)"

text \<open>The \<^verbatim>\<open>angle\<close> property: the slope angle in degrees.\<close>

definition angle :: "trough \<Rightarrow> real" where
  "angle st = angle_rad st * 180 / pi"

subsection \<open>Specification-side notions\<close>

text \<open>
  The index \<open>j\<close> is the first trajectory point at minimal squared Euclidean distance
  from the data point \<open>(xd, yd)\<close>: no point is closer, and every earlier point is
  strictly farther.
\<close>

definition is_first_nearest :: "real list \<Rightarrow> real list \<Rightarrow> real \<Rightarrow> real \<Rightarrow> nat \<Rightarrow> bool" where
  "is_first_nearest xm ym xd yd j =
     (j < length xm \<and>
      list_all (\<lambda>k. (xm ! j - xd) ^ 2 + (ym ! j - yd) ^ 2 \<le> (xm ! k - xd) ^ 2 + (ym ! k - yd) ^ 2)
        [0..<length xm] \<and>
      list_all (\<lambda>k. (xm ! j - xd) ^ 2 + (ym ! j - yd) ^ 2 < (xm ! k - xd) ^ 2 + (ym ! k - yd) ^ 2)
        [0..<j])"


text \<open>
  The periodic checks are the positive multiples of \<open>subIter\<close>. As the specification
  words it, the chain has converged at a check \<open>k\<close> when (a) \<open>k\<close> exceeds 50 times
  every estimate and (b) there is a previous check, \<open>k - subIter\<close>, since which every
  estimate has changed by less than one percent (of the current estimate, the reading
  closest to the code).
\<close>

definition is_check :: "nat \<Rightarrow> nat \<Rightarrow> bool" where
  "is_check subI k = (0 < k \<and> k mod subI = 0)"

definition converged_at :: "(nat \<Rightarrow> real list) \<Rightarrow> nat \<Rightarrow> nat \<Rightarrow> bool" where
  "converged_at tau_at subI k =
     (list_all (\<lambda>t. 50 * t < real k) (tau_at k) \<and>
      subI < k \<and>
      list_all2 (\<lambda>prev t. \<bar>prev - t\<bar> / t < 1 / 100) (tau_at (k - subI)) (tau_at k))"

text \<open>
  The test as the loop evaluates it at a check \<open>k\<close>: (a) as above, and (b) the quotient
  \<open>\<bar>old_tau - tau\<bar> / tau\<close> is below 0.01 for every parameter, where \<open>old_tau\<close> is
  infinite at the first check, so that the quotient is below 0.01 exactly for a negative
  estimate, and is the estimate of the previous check afterwards, the quotient being
  taken against the current estimate, which must not be zero.
\<close>

definition stop_test :: "(nat \<Rightarrow> real list) \<Rightarrow> nat \<Rightarrow> nat \<Rightarrow> bool" where
  "stop_test tau_at subI k =
     (list_all (\<lambda>t. 50 * t < real k) (tau_at k) \<and>
      (if k \<le> subI then list_all (\<lambda>t. t < 0) (tau_at k)
       else list_all2 (\<lambda>prev t. t \<noteq> 0 \<and> \<bar>prev - t\<bar> / t < 1 / 100)
              (tau_at (k - subI)) (tau_at k)))"

text \<open>
  What the loop returns: left by \<^verbatim>\<open>break\<close> at the first check that passes the test, or
  run to \<open>maxSteps\<close> when no check up to there passes it.
\<close>

definition loop_post :: "(nat \<Rightarrow> real list) \<Rightarrow> nat \<Rightarrow> nat \<Rightarrow> bool \<Rightarrow> chain \<Rightarrow> bool" where
  "loop_post tau_at maxS subI b s =
     (if b then is_check subI (iteration s) \<and> iteration s \<le> maxS \<and>
               stop_test tau_at subI (iteration s) \<and>
               (\<forall>j<iteration s. is_check subI j \<longrightarrow> \<not> stop_test tau_at subI j)
      else iteration s = maxS \<and>
           (\<forall>j\<le>maxS. is_check subI j \<longrightarrow> \<not> stop_test tau_at subI j))"

text \<open>The lag axis as the specification words it: the consecutive integers 0 to 15
  with the first entry set to 0 and the last entry set to 20.\<close>

definition lags_as_claimed :: "int list" where
  "lags_as_claimed =
     (let l0 = map int [0..<16];
          l1 = l0[0 := 0];
          l2 = l1[length l1 - 1 := 20]
      in l2)"

text \<open>The conversion of a two-column pixel table to meters with the pixel-to-meter
  factors of the trough model, as the specification words the data load.\<close>

definition pixels_to_meters :: "real \<times> real \<Rightarrow> (real \<times> real) list \<Rightarrow> real list \<times> real list" where
  "pixels_to_meters mpp rows =
     (map (\<lambda>(px, py). px * fst mpp) rows, map (\<lambda>(px, py). py * snd mpp) rows)"

subsection \<open>A small instance\<close>

text \<open>
  Concrete collaborators on which the theorems are exercised: a constant lag (the first lag
  parameter), a retreat rate equal to the lag, a vertical position \<open>- a * t\<close> and a
  horizontal position \<open>r * t\<close>, the antiderivative of the constant retreat rate \<open>r\<close> the
  spline was built from. The trough has the insolation times 0, 1, 2, the accumulation
  parameter 1/2 and the lag parameter 1, so its trajectory is (0, 0), (1, -1/2), (2, -1).
  The estimator is given by its attributes, with two data points on that trajectory.
\<close>

definition example_collaborators :: collaborators where
  "example_collaborators =
     \<lparr>lag_at = (\<lambda>lm t. case lag_parameters lm of [] \<Rightarrow> 0 | a # _ \<Rightarrow> a),
      yt_at = (\<lambda>am t. case acc_parameters am of [] \<Rightarrow> 0 | a # _ \<Rightarrow> - (a * t)),
      xt_at = (\<lambda>am spl cot csc t.
                 case spl of Antiderivative (IUS xs (r # _)) \<Rightarrow> r * t | _ \<Rightarrow> 0),
      rbs_ev = (\<lambda>s l t. l)\<rparr>"

definition example_trough :: trough where
  "example_trough =
     Trough_init example_collaborators [1 / 2] [1] ''linear'' ''constant'' 1 5
       [(0, 0), (0, - 1), (0, - 2)] (replicate 3 (replicate 16 0))"


text \<open>Sequences of autocorrelation-time estimates: one that changes once and is stable
  afterwards, and a constant negative one.\<close>

definition example_tau :: "nat \<Rightarrow> real list" where
  "example_tau k = (if k < 4 then [1 / 100] else [2 / 100])"

definition negative_tau :: "nat \<Rightarrow> real list" where
  "negative_tau k = [- 1]"

section \<open>Properties\<close>

subsection \<open>The first minimum of an array\<close>

lemma argmin_from_first_min:
  assumes "length pre = i" "best < i" "pre ! best = v"
    "\<forall>k<i. v \<le> pre ! k" "\<forall>k<best. v < pre ! k"
  shows "argmin_from xs i best v < length (pre @ xs) \<and>
         (\<forall>k<length (pre @ xs). (pre @ xs) ! argmin_from xs i best v \<le> (pre @ xs) ! k) \<and>
         (\<forall>k<argmin_from xs i best v. (pre @ xs) ! argmin_from xs i best v < (pre @ xs) ! k)"
  using assms
proof (induction xs arbitrary: pre i best v)
  case Nil
  then show ?case by simp
next
  case (Cons x xs)
  let ?pre = "pre @ [x]"
  have app: "pre @ x # xs = ?pre @ xs" by simp
  show ?case
  proof (cases "x < v")
    case True
    have a1: "length ?pre = Suc i" using Cons.prems(1) by simp
    have a2: "i < Suc i" by simp
    have a3: "?pre ! i = x" using Cons.prems(1) by (simp add: nth_append)
    have a4: "\<forall>k<Suc i. x \<le> ?pre ! k"
    proof (intro allI impI)
      fix k assume "k < Suc i"
      then show "x \<le> ?pre ! k"
        using Cons.prems(1,4) True by (cases "k = i") (auto simp: nth_append less_Suc_eq intro: less_imp_le order_trans)
    qed
    have a5: "\<forall>k<i. x < ?pre ! k"
      using Cons.prems(1,4) True by (auto simp: nth_append)
    from Cons.IH[OF a1 a2 a3 a4 a5] True show ?thesis
      unfolding app by simp
  next
    case False
    have a1: "length ?pre = Suc i" using Cons.prems(1) by simp
    have a2: "best < Suc i" using Cons.prems(2) by simp
    have a3: "?pre ! best = v" using Cons.prems(1,2,3) by (simp add: nth_append)
    have a4: "\<forall>k<Suc i. v \<le> ?pre ! k"
      using Cons.prems(1,4) False by (auto simp: nth_append less_Suc_eq)
    have a5: "\<forall>k<best. v < ?pre ! k"
      using Cons.prems(1,2,5) by (auto simp: nth_append)
    from Cons.IH[OF a1 a2 a3 a4 a5] False show ?thesis
      unfolding app by simp
  qed
qed

lemma argmin_Inr:
  assumes "argmin xs = Inr j"
  shows "j < length xs \<and> (\<forall>k<length xs. xs ! j \<le> xs ! k) \<and> (\<forall>k<j. xs ! j < xs ! k)"
proof (cases xs)
  case Nil
  with assms show ?thesis by simp
next
  case (Cons x ys)
  with assms have j: "j = argmin_from ys 1 0 x" by simp
  have "argmin_from ys 1 0 x < length ([x] @ ys) \<and>
         (\<forall>k<length ([x] @ ys). ([x] @ ys) ! argmin_from ys 1 0 x \<le> ([x] @ ys) ! k) \<and>
         (\<forall>k<argmin_from ys 1 0 x. ([x] @ ys) ! argmin_from ys 1 0 x < ([x] @ ys) ! k)"
    by (rule argmin_from_first_min) simp_all
  then show ?thesis using j Cons by simp
qed

lemma argmin_total: "xs \<noteq> [] \<Longrightarrow> \<exists>j. argmin xs = Inr j"
  by (cases xs) simp_all

lemma length_L2_distance: "length (L2_distance xm xd ym yd) = min (length xm) (length ym)"
  by (simp add: L2_distance_def)

lemma nth_L2_distance:
  "k < length xm \<Longrightarrow> k < length ym \<Longrightarrow>
   L2_distance xm xd ym yd ! k = (xm ! k - xd) ^ 2 + (ym ! k - yd) ^ 2"
  by (simp add: L2_distance_def)

lemma argmin_L2_first_nearest:
  assumes "length xm = length ym" "argmin (L2_distance xm xd ym yd) = Inr j"
  shows "is_first_nearest xm ym xd yd j"
proof -
  note A = argmin_Inr[OF assms(2)]
  have len: "length (L2_distance xm xd ym yd) = length xm"
    using assms(1) by (simp add: length_L2_distance)
  have j: "j < length xm" using A len by simp
  have nth: "\<And>k. k < length xm \<Longrightarrow>
      L2_distance xm xd ym yd ! k = (xm ! k - xd) ^ 2 + (ym ! k - yd) ^ 2"
    using assms(1) by (simp add: nth_L2_distance)
  have "\<forall>k<length xm. (xm ! j - xd) ^ 2 + (ym ! j - yd) ^ 2 \<le> (xm ! k - xd) ^ 2 + (ym ! k - yd) ^ 2"
    using A len nth j by metis
  moreover have "\<forall>k<j. (xm ! j - xd) ^ 2 + (ym ! j - yd) ^ 2 < (xm ! k - xd) ^ 2 + (ym ! k - yd) ^ 2"
  proof (intro allI impI)
    fix k assume "k < j"
    then have "k < length xm" using j by simp
    with A \<open>k < j\<close> nth j show "(xm ! j - xd) ^ 2 + (ym ! j - yd) ^ 2 < (xm ! k - xd) ^ 2 + (ym ! k - yd) ^ 2"
      by metis
  qed
  ultimately show ?thesis using j by (simp add: is_first_nearest_def list_all_iff)
qed

subsection \<open>The nearest-point search\<close>





lemma nearest_loop_total:
  assumes "xm \<noteq> []" "length xm = length ym"
  shows "\<exists>out. nearest_loop L2_distance xm ym ts (xo, yo) = Inr out"
proof (induction ts arbitrary: xo yo)
  case Nil
  then show ?case by simp
next
  case (Cons t ts)
  obtain i xd yd where t: "t = (i, xd, yd)" by (cases t)
  have ne: "L2_distance xm xd ym yd \<noteq> []"
    using assms by (cases xm; cases ym) (simp_all add: L2_distance_def)
  then obtain j where j: "argmin (L2_distance xm xd ym yd) = Inr j"
    using argmin_total by blast
  then have "j < length xm" "j < length ym"
    using argmin_Inr[OF j] assms(2) by (simp_all add: length_L2_distance)
  then show ?case using j Cons.IH by (simp add: t)
qed

lemma nearest_loop_Inl:
  assumes "length xm = length ym"
    and "nearest_loop L2_distance xm ym ts (xo, yo) = Inl e"
  shows "xm = [] \<and> ts \<noteq> [] \<and> e = ValueError"
proof -
  have "xm = []"
  proof (rule ccontr)
    assume "xm \<noteq> []"
    from nearest_loop_total[OF this assms(1), of ts xo yo] assms(2) show False by auto
  qed
  moreover have "ts \<noteq> []" using assms(2) by (cases ts) simp_all
  moreover have "e = ValueError"
  proof -
    obtain t ts' where ts: "ts = t # ts'" using \<open>ts \<noteq> []\<close> by (cases ts) auto
    obtain i xd yd where t: "t = (i, xd, yd)" by (cases t)
    have "L2_distance xm xd ym yd = []" using \<open>xm = []\<close> by (simp add: L2_distance_def)
    then show ?thesis using assms(2) by (simp add: ts t)
  qed
  ultimately show ?thesis by simp
qed

lemma nearest_loop_float:
  assumes "length xm = length ym"
    and "nearest_loop L2_distance xm ym (enumerate n ps) (FloatArr xo, FloatArr yo) = Inr (xo', yo')"
  shows "\<exists>xs ys. xo' = FloatArr xs \<and> yo' = FloatArr ys \<and>
         length xs = length xo \<and> length ys = length yo \<and>
         (\<forall>i<n. xs ! i = xo ! i \<and> ys ! i = yo ! i) \<and>
         (\<forall>i<length ps. n + i < length xo \<and> n + i < length yo \<longrightarrow>
            (\<exists>j. argmin (L2_distance xm (fst (ps ! i)) ym (snd (ps ! i))) = Inr j \<and>
                 xs ! (n + i) = xm ! j \<and> ys ! (n + i) = ym ! j))"
  using assms(2)
proof (induction ps arbitrary: n xo yo)
  case Nil
  then show ?case by auto
next
  case (Cons p ps)
  obtain xd yd where p: "p = (xd, yd)" by (cases p)
  from Cons.prems obtain j where
    j: "argmin (L2_distance xm xd ym yd) = Inr j"
    and rest: "nearest_loop L2_distance xm ym (enumerate (Suc n) ps)
                 (FloatArr (xo[n := xm ! j]), FloatArr (yo[n := ym ! j])) = Inr (xo', yo')"
    by (auto simp: p split: sum.splits if_splits)
  from Cons.IH[OF rest] obtain xs ys where
    IH: "xo' = FloatArr xs" "yo' = FloatArr ys"
      "length xs = length xo" "length ys = length yo"
      "\<forall>i<Suc n. xs ! i = (xo[n := xm ! j]) ! i \<and> ys ! i = (yo[n := ym ! j]) ! i"
      "\<forall>i<length ps. Suc n + i < length xo \<and> Suc n + i < length yo \<longrightarrow>
            (\<exists>j. argmin (L2_distance xm (fst (ps ! i)) ym (snd (ps ! i))) = Inr j \<and>
                 xs ! (Suc n + i) = xm ! j \<and> ys ! (Suc n + i) = ym ! j)"
    by auto
  have low: "\<forall>i<n. xs ! i = xo ! i \<and> ys ! i = yo ! i"
    using IH(5) by simp
  have at_n: "n < length xo \<and> n < length yo \<longrightarrow> xs ! n = xm ! j \<and> ys ! n = ym ! j"
    using IH(5) by simp
  have all: "\<forall>i<length (p # ps). n + i < length xo \<and> n + i < length yo \<longrightarrow>
            (\<exists>j. argmin (L2_distance xm (fst ((p # ps) ! i)) ym (snd ((p # ps) ! i))) = Inr j \<and>
                 xs ! (n + i) = xm ! j \<and> ys ! (n + i) = ym ! j)"
  proof (intro allI impI)
    fix i assume i: "i < length (p # ps)" and b: "n + i < length xo \<and> n + i < length yo"
    show "\<exists>j. argmin (L2_distance xm (fst ((p # ps) ! i)) ym (snd ((p # ps) ! i))) = Inr j \<and>
                 xs ! (n + i) = xm ! j \<and> ys ! (n + i) = ym ! j"
    proof (cases i)
      case 0
      then show ?thesis using j at_n b p by simp
    next
      case (Suc i')
      then show ?thesis using IH(6) i b by simp
    qed
  qed
  show ?case using IH(1-4) low all by blast
qed

lemma length_get_trajectory:
  "length (fst (get_trajectory E st None)) = length (ins_times st)"
  "length (snd (get_trajectory E st None)) = length (ins_times st)"
  by (simp_all add: get_trajectory_def Let_def)

lemma get_nearest_points_unfold:
  "get_nearest_points E st x_data y_data None =
     nearest_loop L2_distance (fst (get_trajectory E st None)) (snd (get_trajectory E st None))
       (enumerate 0 (zip (to_reals x_data) (to_reals y_data)))
       (zeros_like x_data, zeros_like y_data)"
  by (simp add: get_nearest_points_def Let_def split: prod.splits)

lemma get_nearest_points_total:
  assumes "ins_times st \<noteq> []"
  shows "\<exists>out. get_nearest_points E st x_data y_data None = Inr out"
  unfolding get_nearest_points_unfold
  by (rule nearest_loop_total) (use assms in \<open>auto simp: get_trajectory_def Let_def\<close>)

lemma get_nearest_points_Inl:
  assumes "get_nearest_points E st x_data y_data None = Inl e"
  shows "ins_times st = [] \<and> e = ValueError"
proof -
  have "length (fst (get_trajectory E st None)) = length (snd (get_trajectory E st None))"
    by (simp add: length_get_trajectory)
  from nearest_loop_Inl[OF this assms[unfolded get_nearest_points_unfold]]
  show ?thesis using length_get_trajectory(1)[of E st] by auto
qed


text \<open>
  On float data arrays the search stores, for every data point, the first nearest point of
  the trajectory, and the outputs are float arrays of the lengths of the data.
\<close>

lemma get_nearest_points_float:
  assumes "get_nearest_points E st (FloatArr x_data) (FloatArr y_data) None = Inr (x_out, y_out)"
  shows "\<exists>xs ys. x_out = FloatArr xs \<and> y_out = FloatArr ys \<and>
           length xs = length x_data \<and> length ys = length y_data \<and>
           (\<forall>i<min (length x_data) (length y_data).
              \<exists>j. is_first_nearest (fst (get_trajectory E st None)) (snd (get_trajectory E st None))
                    (x_data ! i) (y_data ! i) j \<and>
                  xs ! i = fst (get_trajectory E st None) ! j \<and>
                  ys ! i = snd (get_trajectory E st None) ! j)"
proof -
  have eq: "length (fst (get_trajectory E st None)) = length (snd (get_trajectory E st None))"
    by (simp add: length_get_trajectory)
  have r: "nearest_loop L2_distance (fst (get_trajectory E st None)) (snd (get_trajectory E st None))
       (enumerate 0 (zip x_data y_data))
       (FloatArr (replicate (length x_data) 0), FloatArr (replicate (length y_data) 0))
     = Inr (x_out, y_out)"
    using assms by (simp add: get_nearest_points_unfold)
  from nearest_loop_float[OF eq r] obtain xs ys where
    L: "x_out = FloatArr xs" "y_out = FloatArr ys"
      "length xs = length x_data" "length ys = length y_data"
      "\<forall>i<length (zip x_data y_data). 0 + i < length (replicate (length x_data) (0::real)) \<and>
            0 + i < length (replicate (length y_data) (0::real)) \<longrightarrow>
            (\<exists>j. argmin (L2_distance (fst (get_trajectory E st None)) (fst (zip x_data y_data ! i))
                      (snd (get_trajectory E st None)) (snd (zip x_data y_data ! i))) = Inr j \<and>
                 xs ! (0 + i) = fst (get_trajectory E st None) ! j \<and>
                 ys ! (0 + i) = snd (get_trajectory E st None) ! j)"
    by auto
  have "\<exists>j. is_first_nearest (fst (get_trajectory E st None)) (snd (get_trajectory E st None))
                    (x_data ! i) (y_data ! i) j \<and>
                  xs ! i = fst (get_trajectory E st None) ! j \<and>
                  ys ! i = snd (get_trajectory E st None) ! j"
    if i: "i < min (length x_data) (length y_data)" for i
  proof -
    from L(5) i obtain j where
      j: "argmin (L2_distance (fst (get_trajectory E st None)) (x_data ! i)
                      (snd (get_trajectory E st None)) (y_data ! i)) = Inr j"
      and o: "xs ! i = fst (get_trajectory E st None) ! j" "ys ! i = snd (get_trajectory E st None) ! j"
      by force
    from argmin_L2_first_nearest[OF eq j] o show ?thesis by blast
  qed
  with L(1-4) show ?thesis by blast
qed

subsection \<open>The instance evaluated\<close>

lemma example_fields:
  "ins_times example_trough = [0, 1, 2]"
  "errorbar example_trough = 1"
  "meters_per_pixel example_trough = (500, 20)"
  "accuModel example_trough = \<lparr>acc_times = [0, 1, 2], acc_insolation = [0, 0, 0], acc_parameters = [1 / 2]\<rparr>"
  "lagModel example_trough = \<lparr>lag_parameters = [1]\<rparr>"
  "lag_model_t example_trough = [1, 1, 1]"
  "retreat_model_t example_trough = [1, 1, 1]"
  "int_retreat_model_t_spline example_trough = Antiderivative (IUS [0, 1, 2] [1, 1, 1])"
  by (simp_all add: example_trough_def Trough_init_def Let_def
      set_angle_def compute_model_splines_def get_lag_at_t_def get_retreat_model_t_def
      example_collaborators_def)

lemma example_trajectory:
  "get_trajectory example_collaborators example_trough None = ([0, 1, 2], [0, - (1 / 2), - 1])"
  by (simp add: get_trajectory_def Let_def example_fields) (simp add: example_collaborators_def)

lemma example_nearest_float:
  "get_nearest_points example_collaborators example_trough (FloatArr [1]) (FloatArr [0]) None
     = Inr (FloatArr [1], FloatArr [- (1 / 2)])"
  by (simp add: get_nearest_points_unfold example_trajectory enumerate_eq_zip L2_distance_def
      power2_eq_square)

lemma float_to_int_half: "float_to_int (- (1 / 2)) = 0" "float_to_int 1 = 1"
  by (simp_all add: float_to_int_def ceiling_eq_iff)

lemma example_nearest_int:
  "get_nearest_points example_collaborators example_trough (IntArr [1]) (IntArr [0]) None
     = Inr (IntArr [1], IntArr [0])"
  by (simp add: get_nearest_points_unfold example_trajectory enumerate_eq_zip L2_distance_def
      power2_eq_square float_to_int_half)

lemma example_run:
  "run_sampling example_tau 6 2 =
     Inr (True, \<lparr>iteration = 6, index = 3, autocorr = [1 / 100, 2 / 100, 2 / 100],
                 old = Tau [2 / 100]\<rparr>)"
  by code_simp

subsection \<open>Nearest trajectory points\<close>

text \<open>
  Claim C5 says that for every observed data point the pair returned by
  \<^verbatim>\<open>get_nearest_points\<close> is the trajectory point of minimal squared Euclidean distance,
  the first one among equals; the docstring says the same of the output. The outputs are
  created by \<^verbatim>\<open>np.zeros_like\<close> and so have the dtype of the data: for integer data
  arrays the chosen point is cut to integers when it is stored. On the instance the
  nearest point of the data point (1, 0) is the trajectory point of index 1,
  (1, -1/2); with integer data arrays the call returns (1, 0), with float data arrays
  (1, -1/2).
\<close>

theorem get_nearest_points_truncates_on_integer_data:
  "get_trajectory example_collaborators example_trough None = ([0, 1, 2], [0, - (1 / 2), - 1]) \<and>
   is_first_nearest [0, 1, 2] [0, - (1 / 2), - 1] 1 0 1 \<and>
   get_nearest_points example_collaborators example_trough (IntArr [1]) (IntArr [0]) None
     = Inr (IntArr [1], IntArr [0]) \<and>
   to_reals (IntArr [0]) ! 0 \<noteq> [0, - (1 / 2), - 1 :: real] ! 1 \<and>
   get_nearest_points example_collaborators example_trough (FloatArr [1]) (FloatArr [0]) None
     = Inr (FloatArr [1], FloatArr [- (1 / 2)])"
  by (simp add: example_trajectory example_nearest_int example_nearest_float is_first_nearest_def
      upt_rec power2_eq_square)

text \<open>
  Claim C10 says that for data arrays of equal length every returned pair is an element
  of the trajectory of the current state, and that the outputs have the length of the
  data. With integer data arrays of length one the call returns (1, 0) on the instance,
  which is no point of the trajectory (0, 0), (1, -1/2), (2, -1).
\<close>

theorem get_nearest_points_off_trajectory_on_integer_data:
  "arr_len (IntArr [1]) = arr_len (IntArr [0]) \<and>
   get_nearest_points example_collaborators example_trough (IntArr [1]) (IntArr [0]) None
     = Inr (IntArr [1], IntArr [0]) \<and>
   (to_reals (IntArr [1]) ! 0, to_reals (IntArr [0]) ! 0)
     \<notin> set (zip (fst (get_trajectory example_collaborators example_trough None))
                 (snd (get_trajectory example_collaborators example_trough None)))"
  by (simp add: example_trajectory example_nearest_int)

subsection \<open>The log-likelihood\<close>





subsection \<open>The trajectory\<close>

text \<open>
  Claim C6. Called without times, \<^verbatim>\<open>get_trajectory\<close> evaluates the trajectory on the
  stored insolation times: the horizontal positions are the accumulation submodel's
  horizontal-position function, given the antiderivative spline and the two slope
  constants, at each stored time, the vertical positions its vertical-position function
  at each stored time, both as long as the stored time axis, and they are the arrays
  obtained by passing the stored time axis explicitly.
\<close>

theorem get_trajectory_default_times:
  "get_trajectory E st None =
     (map (xt_at E (accuModel st) (int_retreat_model_t_spline st) (cot_angle st) (csc_angle st))
        (ins_times st),
      map (yt_at E (accuModel st)) (ins_times st)) \<and>
   get_trajectory E st None = get_trajectory E st (Some (ins_times st)) \<and>
   length (fst (get_trajectory E st None)) = length (ins_times st) \<and>
   length (snd (get_trajectory E st None)) = length (ins_times st)"
  by (simp add: get_trajectory_def Let_def)

theorem get_trajectory_default_times_witness:
  "get_trajectory example_collaborators example_trough None = ([0, 1, 2], [0, - (1 / 2), - 1]) \<and>
   get_trajectory example_collaborators example_trough (Some [0, 1, 2])
     = ([0, 1, 2], [0, - (1 / 2), - 1]) \<and>
   ins_times example_trough = [0, 1, 2]"
proof -
  from get_trajectory_default_times[of example_collaborators example_trough]
  have "get_trajectory example_collaborators example_trough None
      = get_trajectory example_collaborators example_trough (Some (ins_times example_trough))"
    by blast
  then have "get_trajectory example_collaborators example_trough (Some [0, 1, 2])
      = ([0, 1, 2], [0, - (1 / 2), - 1])"
    by (simp add: example_fields(1) example_trajectory)
  with example_trajectory example_fields(1) show ?thesis by blast
qed

subsection \<open>The lag axis\<close>

lemma Trough_lags_value:
  "Trough_lags = [0, 2, 3, 4, 5, 6, 7, 8, 9, 10, 11, 12, 13, 14, 15, 20]"
  by code_simp

lemma lags_as_claimed_value:
  "lags_as_claimed = [0, 1, 2, 3, 4, 5, 6, 7, 8, 9, 10, 11, 12, 13, 14, 20]"
  by code_simp

text \<open>
  Claim C7, as amended. The constructor builds a fixed lag axis of 16 values: the
  integers 1 to 16 with the first entry lowered to 0 and the last entry set to 20, that
  is 0, 2, 3, ..., 15, 20. The axis starts at 0, ends at 20, and it is the first axis of
  the two-dimensional retreat-rate spline and of its squared variant.
\<close>

theorem Trough_init_lags:
  "lags (Trough_init E acc_params lag_params acc_name lag_name err ang ins_file retreat_file)
     = [0, 2, 3, 4, 5, 6, 7, 8, 9, 10, 11, 12, 13, 14, 15, 20] \<and>
   length (lags (Trough_init E acc_params lag_params acc_name lag_name err ang ins_file retreat_file)) = 16 \<and>
   hd (lags (Trough_init E acc_params lag_params acc_name lag_name err ang ins_file retreat_file)) = 0 \<and>
   last (lags (Trough_init E acc_params lag_params acc_name lag_name err ang ins_file retreat_file)) = 20 \<and>
   rbs_x (ret_data_spline (Trough_init E acc_params lag_params acc_name lag_name err ang ins_file retreat_file))
     = map real_of_int (lags (Trough_init E acc_params lag_params acc_name lag_name err ang ins_file retreat_file)) \<and>
   rbs_x (re2_data_spline (Trough_init E acc_params lag_params acc_name lag_name err ang ins_file retreat_file))
     = map real_of_int (lags (Trough_init E acc_params lag_params acc_name lag_name err ang ins_file retreat_file))"
proof -
  have l: "lags (Trough_init E acc_params lag_params acc_name lag_name err ang ins_file retreat_file) = Trough_lags"
    by (simp add: Trough_init_def Let_def set_angle_def compute_model_splines_def)
  have r: "rbs_x (ret_data_spline (Trough_init E acc_params lag_params acc_name lag_name err ang ins_file retreat_file))
      = map real_of_int Trough_lags"
    "rbs_x (re2_data_spline (Trough_init E acc_params lag_params acc_name lag_name err ang ins_file retreat_file))
      = map real_of_int Trough_lags"
    by (simp_all add: Trough_init_def Let_def set_angle_def compute_model_splines_def)
  show ?thesis unfolding l r by (simp add: Trough_lags_value)
qed

text \<open>
  The axis is not the consecutive integers 0 to 15 with clamped ends: its second entry
  is 2, where the axis of the specification has 1.
\<close>

theorem Trough_lags_not_consecutive: "Trough_lags ! 1 = 2 \<and> lags_as_claimed ! 1 = 1 \<and> Trough_lags \<noteq> lags_as_claimed"
  by (simp add: Trough_lags_value lags_as_claimed_value)

subsection \<open>The estimator as the source has it\<close>

text \<open>
  The constructor of the estimator raises at the construction of the trough object, and
  \<^verbatim>\<open>ln_likelihood\<close> returns the sentinel for a negative errorbar and raises otherwise,
  leaving the estimator as it was.
\<close>

lemma MCMC_init_raises:
  "MCMC_init maxS subI acc_name lag_name acc_params lag_params err ang
     tmp_file ins_data ins_file retreat_file
   = Inl (case acc_params of Some key \<Rightarrow> TypeError | None \<Rightarrow> KeyError)"
  by (simp add: MCMC_init_def Trough_names_first_def Let_def split: option.splits)

lemma ln_likelihood_result:
  "ln_likelihood E m p = (if p_errorbar p < 0 then (Inr sentinel, m) else (Inl TypeError, m))"
  by (simp add: ln_likelihood_def set_model_one_argument_def)

subsection \<open>The observed data\<close>

text \<open>
  Claim C8, as amended. On load the first column of the observed-trajectory file is
  multiplied by 1000 (kilometres to metres) and the second column is stored as read;
  these are the data arrays the estimator stores, and a likelihood evaluation leaves both
  as they are.
\<close>

theorem MCMC_load_data:
  "xdata (MCMC_load maxS subI acc_name lag_name tmp_file ins_data)
     = map (\<lambda>(x, y). x * 1000) tmp_file \<and>
   ydata (MCMC_load maxS subI acc_name lag_name tmp_file ins_data)
     = map (\<lambda>(x, y). y) tmp_file \<and>
   xdata (snd (ln_likelihood E m p)) = xdata m \<and>
   ydata (snd (ln_likelihood E m p)) = ydata m"
  by (simp add: MCMC_load_def load_TMP_def Let_def ln_likelihood_result split_def comp_def)

text \<open>
  The load is not a conversion of two pixel columns to meters: on the row \<open>(1, 1)\<close> the
  second column stays 1 and the first becomes 1000, where the pixel-to-meter factors give
  500 and 20.
\<close>

theorem load_TMP_not_pixels_to_meters:
  "load_TMP [(1, 1)] = ([1000], [1]) \<and>
   pixels_to_meters (500, 20) [(1, 1)] = ([500], [20]) \<and>
   load_TMP [(1, 1)] \<noteq> pixels_to_meters (500, 20) [(1, 1)]"
  by (simp add: load_TMP_def pixels_to_meters_def)

subsection \<open>The likelihood of the estimator\<close>

text \<open>
  Claim C2 says that \<^verbatim>\<open>ln_likelihood\<close> returns the sentinel exactly when the errorbar
  is negative or the predicted lag leaves the interval from 0 to 20, and the
  log-likelihood of the trough model otherwise. The lines that do so follow the call
  \<^verbatim>\<open>self.tr.set_model(params)\<close>, which passes one argument where \<^verbatim>\<open>set_model\<close> takes
  three: for every errorbar that is not negative the call raises \<^verbatim>\<open>TypeError\<close>, and
  neither the sentinel of the lag range nor a log-likelihood is returned.
\<close>

theorem ln_likelihood_raises_for_nonnegative_errorbar:
  "fst (ln_likelihood E m p) = (if p_errorbar p < 0 then Inr sentinel else Inl TypeError)"
  by (simp add: ln_likelihood_result)




subsection \<open>The sampling loop\<close>

lemma list_all_zip_all2:
  "length xs = length ys \<Longrightarrow> list_all (\<lambda>(a, b). P a b) (zip xs ys) = list_all2 P xs ys"
  by (auto simp: list_all2_iff list_all_iff)

lemma step_no_check:
  assumes "0 < subI" "Suc i mod subI \<noteq> 0"
  shows "Suc i div subI = i div subI" "Suc i - Suc i mod subI = i - i mod subI"
    "Suc i < subI \<longleftrightarrow> i < subI"
proof -
  have m: "Suc i mod subI = Suc (i mod subI)"
    using assms by (metis mod_Suc)
  show "Suc i div subI = i div subI"
    using assms by (metis div_Suc)
  show "Suc i - Suc i mod subI = i - i mod subI"
    using m by (simp add: Suc_diff_le)
  show "Suc i < subI \<longleftrightarrow> i < subI"
    using assms by (metis Suc_lessI less_Suc_eq mod_self not_less_eq)
qed

lemma step_check:
  assumes "0 < subI" "Suc i mod subI = 0" "Suc i \<le> maxS"
  shows "i div subI < maxS div subI" "Suc (i div subI) = Suc i div subI"
    "i < subI \<longleftrightarrow> Suc i = subI" "subI \<le> i \<Longrightarrow> i - i mod subI = Suc i - subI"
proof -
  from assms(2) obtain q where q: "Suc i = subI * q" by (auto simp: mod_eq_0_iff_dvd)
  then have qpos: "0 < q" by (cases q) auto
  have im: "i mod subI = subI - 1"
    using assms(1,2) by (metis Suc_eq_plus1 add_diff_cancel_right' mod_Suc nat.simps(3))
  show s: "Suc (i div subI) = Suc i div subI"
    using assms(1,2) by (metis div_Suc)
  have "Suc i div subI \<le> maxS div subI" using assms(3) by (rule div_le_mono)
  with s show "i div subI < maxS div subI" by simp
  show "i < subI \<longleftrightarrow> Suc i = subI"
  proof
    assume "i < subI"
    then have "Suc i \<le> subI" by simp
    moreover have "subI \<le> Suc i" using q qpos by (cases q) auto
    ultimately show "Suc i = subI" by simp
  next
    assume "Suc i = subI" then show "i < subI" by simp
  qed
  show "i - i mod subI = Suc i - subI" if "subI \<le> i"
    using im that assms(1) by simp
qed

lemma sampling_loop_inv:
  assumes subI: "0 < subI"
    and tau: "\<forall>k\<le>maxS. is_check subI k \<longrightarrow> length (tau_at k) = ndim"
    and inv: "iteration s \<le> maxS" "index s = iteration s div subI"
      "length (autocorr s) = maxS div subI"
      "old s = (if iteration s < subI then Inf
                else Tau (tau_at (iteration s - iteration s mod subI)))"
      "\<forall>j\<le>iteration s. is_check subI j \<longrightarrow> \<not> stop_test tau_at subI j"
  shows "\<exists>b s'. sampling_loop tau_at maxS subI s = Inr (b, s') \<and> loop_post tau_at maxS subI b s'"
  using inv
proof (induction "maxS - iteration s" arbitrary: s)
  case 0
  then have eq: "iteration s = maxS" by simp
  then have "sampling_loop tau_at maxS subI s = Inr (False, s)"
    by (subst sampling_loop.simps) simp
  moreover have "loop_post tau_at maxS subI False s"
    using eq "0.prems"(5) by (simp add: loop_post_def)
  ultimately show ?case by blast
next
  case (Suc d)
  let ?i = "iteration s"
  have lt: "?i < maxS" using Suc.hyps(2) by simp
  then have le': "Suc ?i \<le> maxS" by simp
  show ?case
  proof (cases "Suc ?i mod subI = 0")
    case False
    let ?s1 = "s\<lparr>iteration := Suc ?i\<rparr>"
    have unf: "sampling_loop tau_at maxS subI s = sampling_loop tau_at maxS subI ?s1"
      using lt False by (subst sampling_loop.simps) (simp add: Let_def)
    note A = step_no_check[OF subI False]
    have nc: "\<not> is_check subI (Suc ?i)" using False by (simp add: is_check_def)
    have i1: "d = maxS - iteration ?s1" using Suc.hyps(2) by simp
    have i2: "iteration ?s1 \<le> maxS" using le' by simp
    have i3: "index ?s1 = iteration ?s1 div subI" using Suc.prems(2) A(1) by simp
    have i4: "length (autocorr ?s1) = maxS div subI" using Suc.prems(3) by simp
    have i5: "old ?s1 = (if iteration ?s1 < subI then Inf
                else Tau (tau_at (iteration ?s1 - iteration ?s1 mod subI)))"
      using Suc.prems(4) A(2,3) by simp
    have i6: "\<forall>j\<le>iteration ?s1. is_check subI j \<longrightarrow> \<not> stop_test tau_at subI j"
      using Suc.prems(5) nc by (auto simp: le_Suc_eq)
    from Suc.hyps(1)[OF i1 i2 i3 i4 i5 i6] unf show ?thesis by simp
  next
    case True
    note B = step_check[OF subI True le']
    let ?k = "Suc ?i"
    let ?tau = "tau_at ?k"
    have chk: "is_check subI ?k" using True by (simp add: is_check_def)
    have tk: "length ?tau = ndim" using tau le' chk by auto
    let ?s2 = "s\<lparr>iteration := ?k, autocorr := (autocorr s)[index s := mean ?tau],
                 index := Suc (index s)\<rparr>"
    have idx: "index s < length (autocorr s)" using Suc.prems(2,3) B(1) by simp
    have a: "list_all (\<lambda>t. t * 50 < real ?k) ?tau = list_all (\<lambda>t. 50 * t < real ?k) ?tau"
      by (simp add: mult.commute)
    have conv_eq: "(list_all (\<lambda>t. t * 50 < real ?k) ?tau \<and> tau_stable (old s) ?tau)
                   = stop_test tau_at subI ?k"
    proof (cases "?i < subI")
      case first: True
      then have "?k = subI" using B(3) by simp
      then have "?k \<le> subI" by simp
      moreover have "old s = Inf" using Suc.prems(4) first by simp
      ultimately show ?thesis unfolding a stop_test_def by simp
    next
      case later: False
      then have ge: "subI \<le> ?i" by simp
      have o: "old s = Tau (tau_at (?k - subI))" using Suc.prems(4) later B(4)[OF ge] by simp
      have pk: "is_check subI (?k - subI)" "?k - subI \<le> maxS"
        using ge True le' subI by (auto simp: is_check_def mod_eq_0_iff_dvd)
      have lp: "length (tau_at (?k - subI)) = length ?tau" using tau pk tk by auto
      have "\<not> ?k \<le> subI" using ge by simp
      then show ?thesis
        unfolding o a stop_test_def tau_stable.simps list_all_zip_all2[OF lp] by simp
    qed
    show ?thesis
    proof (cases "stop_test tau_at subI ?k")
      case c: True
      have unf: "sampling_loop tau_at maxS subI s = Inr (True, ?s2)"
        using lt True idx conv_eq c
        by (subst sampling_loop.simps) (auto simp add: Let_def simp del: of_nat_Suc)
      have "loop_post tau_at maxS subI True ?s2"
        using chk le' c Suc.prems(5) by (auto simp: loop_post_def less_Suc_eq_le)
      with unf show ?thesis by blast
    next
      case c: False
      let ?s3 = "?s2\<lparr>old := Tau ?tau\<rparr>"
      have unf: "sampling_loop tau_at maxS subI s = sampling_loop tau_at maxS subI ?s3"
        using lt True idx conv_eq c
        by (subst sampling_loop.simps) (auto simp add: Let_def simp del: of_nat_Suc)
      have i1: "d = maxS - iteration ?s3" using Suc.hyps(2) by simp
      have i2: "iteration ?s3 \<le> maxS" using le' by simp
      have i3: "index ?s3 = iteration ?s3 div subI" using Suc.prems(2) B(2) by simp
      have i4: "length (autocorr ?s3) = maxS div subI" using Suc.prems(3) by simp
      have ge: "\<not> ?k < subI" using True subI by (metis mod_less nat.simps(3))
      have i5: "old ?s3 = (if iteration ?s3 < subI then Inf
                else Tau (tau_at (iteration ?s3 - iteration ?s3 mod subI)))"
        using True ge by simp
      have i6: "\<forall>j\<le>iteration ?s3. is_check subI j \<longrightarrow> \<not> stop_test tau_at subI j"
        using Suc.prems(5) c by (auto simp: le_Suc_eq)
      from Suc.hyps(1)[OF i1 i2 i3 i4 i5 i6] unf show ?thesis by simp
    qed
  qed
qed

lemma stop_test_positive:
  assumes "0 < subI" "is_check subI k" "tau_at k \<noteq> []" "\<forall>t\<in>set (tau_at k). 0 < t"
  shows "stop_test tau_at subI k = converged_at tau_at subI k"
proof (cases "k \<le> subI")
  case True
  from assms(3) obtain t where t: "t \<in> set (tau_at k)" by (cases "tau_at k") auto
  with assms(4) have "\<not> t < 0" by auto
  with t have "\<not> list_all (\<lambda>t. t < 0) (tau_at k)" by (auto simp: list_all_iff)
  then show ?thesis using True by (simp add: stop_test_def converged_at_def)
next
  case False
  have "list_all2 (\<lambda>prev t. t \<noteq> 0 \<and> \<bar>prev - t\<bar> / t < 1 / 100) (tau_at (k - subI)) (tau_at k)
        = list_all2 (\<lambda>prev t. \<bar>prev - t\<bar> / t < 1 / 100) (tau_at (k - subI)) (tau_at k)"
    by (rule list.rel_cong) (use assms(4) in auto)
  then show ?thesis using False by (simp add: stop_test_def converged_at_def)
qed

text \<open>
  Claim C3, as amended. With a positive check interval and one estimate per parameter,
  the sampling loop declares convergence at a periodic check exactly when (a) the
  iteration count exceeds 50 times every estimate and (b) \<open>\<bar>old_tau - tau\<bar> / tau < 0.01\<close>
  for every parameter, the quotient being taken against the current estimate and
  \<open>old_tau\<close> being infinite at the first check. It is left early at the first check
  where both hold and at no earlier iteration; when no check up to \<open>maxSteps\<close>
  satisfies both, it runs until \<open>maxSteps\<close> iterations are exhausted; it always
  returns. For positive estimates (b) says that there is a previous check since which
  every estimate has changed by less than one percent of its current value.
\<close>

theorem sampling_loop_stops_at_first_passing_check:
  assumes "0 < subI"
    and "\<forall>k\<le>maxS. is_check subI k \<longrightarrow> length (tau_at k) = ndim"
  shows "(\<exists>b s. run_sampling tau_at maxS subI = Inr (b, s) \<and>
           (b \<longrightarrow> is_check subI (iteration s) \<and> iteration s \<le> maxS \<and>
                  stop_test tau_at subI (iteration s) \<and>
                  (\<forall>j<iteration s. is_check subI j \<longrightarrow> \<not> stop_test tau_at subI j)) \<and>
           (\<not> b \<longrightarrow> iteration s = maxS \<and>
                  (\<forall>j\<le>maxS. is_check subI j \<longrightarrow> \<not> stop_test tau_at subI j))) \<and>
         (\<forall>k. is_check subI k \<and> tau_at k \<noteq> [] \<and> (\<forall>t\<in>set (tau_at k). 0 < t) \<longrightarrow>
              stop_test tau_at subI k = converged_at tau_at subI k)"
proof -
  let ?s0 = "\<lparr>iteration = 0, index = 0, autocorr = replicate (maxS div subI) (0::real), old = Inf\<rparr>"
  have "\<exists>b s'. sampling_loop tau_at maxS subI ?s0 = Inr (b, s') \<and> loop_post tau_at maxS subI b s'"
    by (rule sampling_loop_inv[OF assms]) (use assms(1) in \<open>simp_all add: is_check_def\<close>)
  then obtain b s where r: "sampling_loop tau_at maxS subI ?s0 = Inr (b, s)"
    and p: "loop_post tau_at maxS subI b s"
    by blast
  have "run_sampling tau_at maxS subI = Inr (b, s)"
    using assms(1) r by (simp add: run_sampling_def)
  moreover have "b \<longrightarrow> is_check subI (iteration s) \<and> iteration s \<le> maxS \<and>
                  stop_test tau_at subI (iteration s) \<and>
                  (\<forall>j<iteration s. is_check subI j \<longrightarrow> \<not> stop_test tau_at subI j)"
    using p by (simp add: loop_post_def)
  moreover have "\<not> b \<longrightarrow> iteration s = maxS \<and>
                  (\<forall>j\<le>maxS. is_check subI j \<longrightarrow> \<not> stop_test tau_at subI j)"
    using p by (simp add: loop_post_def)
  moreover have "\<forall>k. is_check subI k \<and> tau_at k \<noteq> [] \<and> (\<forall>t\<in>set (tau_at k). 0 < t) \<longrightarrow>
              stop_test tau_at subI k = converged_at tau_at subI k"
    using stop_test_positive[OF assms(1)] by blast
  ultimately show ?thesis by blast
qed

theorem sampling_loop_stops_at_first_passing_check_witness:
  "run_sampling example_tau 6 2 =
     Inr (True, \<lparr>iteration = 6, index = 3, autocorr = [1 / 100, 2 / 100, 2 / 100],
                 old = Tau [2 / 100]\<rparr>) \<and>
   stop_test example_tau 2 6 \<and> converged_at example_tau 2 6 \<and>
   \<not> stop_test example_tau 2 2 \<and> \<not> stop_test example_tau 2 4"
proof -
  have h1: "0 < (2::nat)" by simp
  have h2: "\<forall>k\<le>6. is_check 2 k \<longrightarrow> length (example_tau k) = 1"
    by (simp add: example_tau_def)
  note T = sampling_loop_stops_at_first_passing_check[OF h1 h2]
  from T have c: "is_check 2 (6::nat) \<and> stop_test example_tau 2 6 \<and>
           (\<forall>j<6. is_check 2 j \<longrightarrow> \<not> stop_test example_tau 2 j)"
    by (auto simp: example_run)
  have k: "is_check 2 (2::nat)" "is_check 2 (4::nat)" "is_check 2 (6::nat)"
    by (simp_all add: is_check_def)
  with c have n: "\<not> stop_test example_tau 2 2" "\<not> stop_test example_tau 2 4" by auto
  have "example_tau 6 \<noteq> [] \<and> (\<forall>t\<in>set (example_tau 6). 0 < t)"
    by (simp add: example_tau_def)
  with T k(3) have "stop_test example_tau 2 6 = converged_at example_tau 2 6" by blast
  with c n example_run show ?thesis by blast
qed

text \<open>
  With negative estimates the loop is left at the first check, where no previous check
  exists and the condition of the specification does not hold.
\<close>

theorem sampling_loop_converges_at_first_check_on_negative_estimates:
  "run_sampling negative_tau 4 2 =
     Inr (True, \<lparr>iteration = 2, index = 1, autocorr = [- 1, 0], old = Inf\<rparr>) \<and>
   is_check 2 2 \<and> \<not> converged_at negative_tau 2 2"
proof -
  have "run_sampling negative_tau 4 2 =
     Inr (True, \<lparr>iteration = 2, index = 1, autocorr = [- 1, 0], old = Inf\<rparr>)"
    by code_simp
  moreover have "is_check 2 (2::nat)" by (simp add: is_check_def)
  moreover have "\<not> converged_at negative_tau 2 2" by (simp add: converged_at_def)
  ultimately show ?thesis by blast
qed

end
